theory Spec2Isabelle
  imports Main "HOL-Library.Word"
begin

section \<open>The process around an MPIConnection\<close>

text \<open>
  \<^verbatim>\<open>MPIConnection.hpp\<close> declares one class and one macro. Everything the class does
  besides assigning its own members goes to two places outside the object: the error
  stream \<^verbatim>\<open>std::cerr\<close> and the MPI runtime. A process is those two; the runtime is kept
  abstract (type \<open>'t\<close>) and every MPI function the header calls is a parameter of the
  definition that calls it.

  A C \<^verbatim>\<open>int\<close> is a 32-bit word; \<open>- 1\<close> is the word of all ones.
\<close>

type_synonym cint = "32 word"

record 't process =
  cerr :: string
  mpi :: 't

text \<open>
  A piece of code returns to its caller, ends the process through \<^verbatim>\<open>exit\<close>, or leaves
  through a C++ exception. The header has no \<^verbatim>\<open>throw\<close>; the third alternative is there
  for the member functions that the header only declares.
\<close>

datatype ('a, 't) outcome =
  Returned 'a "'t process"
| Exited cint "'t process"
| Thrown "'t process"

text \<open>Sequencing of two statements: the second runs only when the first returns.\<close>

fun and_then ::
  "('a, 't) outcome \<Rightarrow> ('a \<Rightarrow> 't process \<Rightarrow> ('b, 't) outcome) \<Rightarrow> ('b, 't) outcome" where
  "and_then (Returned v p) k = k v p"
| "and_then (Exited n p) k = Exited n p"
| "and_then (Thrown p) k = Thrown p"

fun is_Thrown :: "('a, 't) outcome \<Rightarrow> bool" where
  "is_Thrown (Thrown p) = True"
| "is_Thrown (Returned v p) = False"
| "is_Thrown (Exited n p) = False"

section \<open>The macro MPI\_CHECK\<close>

text \<open>
  \<^verbatim>\<open>
  #define MPI_CHECK( mpi_call )
    do {
      int retval;
      if( (retval = (mpi_call)) != 0 ) {
        char error_string[MPI_MAX_ERROR_STRING];
        int length;
        MPI_Error_string( retval, error_string, &length);
        std::cerr << "MPI call failed: " #mpi_call ": " << error_string << "\n";
        exit(1);
      }
    } while(0)
  \<close>
  The argument \<open>mpi_call\<close> is the call as an action on the runtime: it gives the status,
  what the call stored through its output arguments, and the runtime after the call.
  \<open>mpi_call_text\<close> is the stringified argument \<^verbatim>\<open>#mpi_call\<close>. \<open>MPI_Error_string\<close> is the
  transport's translation of a status to text.
\<close>

definition MPI_CHECK ::
  "(cint \<Rightarrow> string) \<Rightarrow> string \<Rightarrow> ('t \<Rightarrow> cint \<times> 'a \<times> 't) \<Rightarrow> 't process \<Rightarrow> ('a, 't) outcome" where
  "MPI_CHECK MPI_Error_string mpi_call_text mpi_call p =
     (case mpi_call (mpi p) of
        (retval, out, t) \<Rightarrow>
          if retval \<noteq> 0
          then Exited 1
                 (p\<lparr>mpi := t,
                    cerr := cerr p @ ''MPI call failed: '' @ mpi_call_text @ '': ''
                              @ MPI_Error_string retval @ ''\<newline>''\<rparr>)
          else Returned out (p\<lparr>mpi := t\<rparr>))"

section \<open>The class MPIConnection\<close>

text \<open>
  The six private \<^verbatim>\<open>int\<close> members \<^verbatim>\<open>rank_\<close>, \<^verbatim>\<open>size_\<close>, \<^verbatim>\<open>locales_\<close>, \<^verbatim>\<open>locale_\<close>,
  \<^verbatim>\<open>locale_rank_\<close>, \<^verbatim>\<open>locale_size_\<close> and the two public communicators carry the suffix
  \<open>_m\<close> here, since a name cannot end with an underscore. The eight public members of
  type \<^verbatim>\<open>const int &\<close> are references: each holds which private member it was bound to
  by the constructor's initialiser list. \<^verbatim>\<open>size\<close> and \<^verbatim>\<open>locale\<close> are written \<open>size_ref\<close>
  and \<open>locale_ref\<close>.

  Neither constructor initialises the communicators: \<open>None\<close> is a communicator that has
  never been assigned.
\<close>

datatype int_member =
  Ref_rank_m | Ref_size_m | Ref_locales_m | Ref_locale_m | Ref_locale_rank_m | Ref_locale_size_m

record 'c MPIConnection =
  rank_m :: cint
  size_m :: cint
  locales_m :: cint
  locale_m :: cint
  locale_rank_m :: cint
  locale_size_m :: cint
  main_communicator_m :: "'c option"
  locale_communicator_m :: "'c option"
  rank :: int_member
  size_ref :: int_member
  ranks :: int_member
  locales :: int_member
  locale_ref :: int_member
  locale_rank :: int_member
  locale_size :: int_member
  locale_ranks :: int_member

text \<open>Reading through a reference member: the value of the private member it is bound to.\<close>

fun deref :: "('c, 'z) MPIConnection_scheme \<Rightarrow> int_member \<Rightarrow> cint" where
  "deref this Ref_rank_m = rank_m this"
| "deref this Ref_size_m = size_m this"
| "deref this Ref_locales_m = locales_m this"
| "deref this Ref_locale_m = locale_m this"
| "deref this Ref_locale_rank_m = locale_rank_m this"
| "deref this Ref_locale_size_m = locale_size_m this"

text \<open>
  \<^verbatim>\<open>MPIConnection() : rank_(-1), size_(-1), locales_(-1), locale_(-1), locale_rank_(-1),
  locale_size_(-1), rank(rank_), size(size_), ranks(size_), locales(locales_),
  locale(locale_), locale_rank(locale_rank_), locale_size(locale_size_),
  locale_ranks(locale_size_) { ; }\<close>
\<close>

definition MPIConnection_ctor :: "'c MPIConnection" where
  "MPIConnection_ctor =
     \<lparr> rank_m = - 1, size_m = - 1, locales_m = - 1, locale_m = - 1,
       locale_rank_m = - 1, locale_size_m = - 1,
       main_communicator_m = None, locale_communicator_m = None,
       rank = Ref_rank_m, size_ref = Ref_size_m, ranks = Ref_size_m,
       locales = Ref_locales_m, locale_ref = Ref_locale_m,
       locale_rank = Ref_locale_rank_m, locale_size = Ref_locale_size_m,
       locale_ranks = Ref_locale_size_m \<rparr>"

text \<open>
  The constructor taking \<^verbatim>\<open>(int * argc_p, char ** argv_p[])\<close> has its own initialiser
  list, written out a second time in the source:
  \<^verbatim>\<open>MPIConnection( int * argc_p, char ** argv_p[] ) : rank_(-1), size_(-1), locales_(-1),
  locale_(-1), locale_rank_(-1), locale_size_(-1), rank(rank_), size(size_), ranks(size_),
  locales(locales_), locale(locale_), locale_rank(locale_rank_), locale_size(locale_size_),
  locale_ranks(locale_size_) { init( argc_p, argv_p ); }\<close>
  \<open>MPIConnection_ctor_args_initialisers\<close> is the object when the body starts.
  \<^verbatim>\<open>init\<close> is only declared in the header, so it is a parameter of the constructor.
\<close>

definition MPIConnection_ctor_args_initialisers :: "'c MPIConnection" where
  "MPIConnection_ctor_args_initialisers =
     \<lparr> rank_m = - 1, size_m = - 1, locales_m = - 1, locale_m = - 1,
       locale_rank_m = - 1, locale_size_m = - 1,
       main_communicator_m = None, locale_communicator_m = None,
       rank = Ref_rank_m, size_ref = Ref_size_m, ranks = Ref_size_m,
       locales = Ref_locales_m, locale_ref = Ref_locale_m,
       locale_rank = Ref_locale_rank_m, locale_size = Ref_locale_size_m,
       locale_ranks = Ref_locale_size_m \<rparr>"

definition MPIConnection_ctor_args ::
  "('argc \<Rightarrow> 'argv \<Rightarrow> 'c MPIConnection \<Rightarrow> 't process \<Rightarrow> ('c MPIConnection, 't) outcome)
   \<Rightarrow> 'argc \<Rightarrow> 'argv \<Rightarrow> 't process \<Rightarrow> ('c MPIConnection, 't) outcome" where
  "MPIConnection_ctor_args init argc_p argv_p p =
     init argc_p argv_p MPIConnection_ctor_args_initialisers p"

text \<open>
  What the specification says of that constructor: default construction, then \<open>init\<close>.
\<close>

definition default_then_init ::
  "('argc \<Rightarrow> 'argv \<Rightarrow> 'c MPIConnection \<Rightarrow> 't process \<Rightarrow> ('c MPIConnection, 't) outcome)
   \<Rightarrow> 'argc \<Rightarrow> 'argv \<Rightarrow> 't process \<Rightarrow> ('c MPIConnection, 't) outcome" where
  "default_then_init init argc_p argv_p p = init argc_p argv_p MPIConnection_ctor p"

text \<open>
  \<^verbatim>\<open>
  ~MPIConnection() {
    int finalized = 0;
    MPI_CHECK( MPI_Finalized( &finalized ) );
    if( !finalized ) {
      std::cerr << "Warning: you should probably call finalize() before MPIConnection goes out of scope, or you may occassionally see deadlock." << std::endl;
      // try to finalize, but it probably won't work
      finalize();
    }
  }
  \<close>
  \<open>MPI_Finalized t f\<close> is the transport's query on the runtime \<open>t\<close> with \<open>f\<close> the content
  of the flag before the call: it gives the status, the content of the flag after the
  call, and the runtime after the call. \<^verbatim>\<open>finalize\<close> is only declared in the header, so
  it is a parameter.
\<close>

definition finalize_warning :: string where
  "finalize_warning =
     ''Warning: you should probably call finalize() before MPIConnection goes out of scope, or you may occassionally see deadlock.''"

definition MPIConnection_dtor ::
  "(cint \<Rightarrow> string) \<Rightarrow> ('t \<Rightarrow> cint \<Rightarrow> cint \<times> cint \<times> 't)
   \<Rightarrow> ('c MPIConnection \<Rightarrow> 't process \<Rightarrow> ('c MPIConnection, 't) outcome)
   \<Rightarrow> 'c MPIConnection \<Rightarrow> 't process \<Rightarrow> (unit, 't) outcome" where
  "MPIConnection_dtor MPI_Error_string MPI_Finalized finalize this p =
     and_then
       (MPI_CHECK MPI_Error_string ''MPI_Finalized( &finalized )'' (\<lambda>t. MPI_Finalized t 0) p)
       (\<lambda>finalized q.
          if finalized = 0
          then and_then (finalize this (q\<lparr>cerr := cerr q @ finalize_warning @ ''\<newline>''\<rparr>))
                 (\<lambda>_ r. Returned () r)
          else Returned () q)"

section \<open>The member functions the header only declares\<close>

text \<open>
  \<^verbatim>\<open>init\<close>, \<^verbatim>\<open>finalize\<close>, \<^verbatim>\<open>barrier\<close>, \<^verbatim>\<open>locale_barrier\<close> and \<^verbatim>\<open>hostname\<close> are declared in the
  header and their bodies are not part of it. Each definition of this section gives the
  words of the specification it follows.
\<close>

text \<open>
  Modelled from the spec: a synchronization domain (the communicators' values, which only
  the missing body of \<^verbatim>\<open>init\<close> assigns). It is the global domain, spanning all processes,
  or the node-local domain of one node identifier.
\<close>

datatype domain = Global_domain | Node_domain string

text \<open>
  Modelled from the spec: the operations of the transport runtime that the missing bodies
  consume: bootstrap, rank query, size query, split by key, barrier, and finalize
  (releasing the runtime).
\<close>

datatype transport_op = Bootstrap | Rank_query | Size_query | Split_by_key | Barrier | Release

text \<open>
  Modelled from the spec: the transport runtime as one process of the job sees it, the
  state on which the missing bodies act. \<open>hosts\<close> is the job: the host of each process,
  by global rank. \<open>self\<close> is the global rank of this process and \<open>host\<close> the name the
  operating system's host-name facility gives it. \<open>status\<close> is the status code the
  transport returns for each kind of operation in this run (zero is success) and
  \<open>error_text\<close> its error-to-string translation. \<open>bootstrapped\<close> and \<open>released\<close> record the
  bootstrap and the release of the runtime, \<open>passed\<close> the barriers this process has come
  out of.
\<close>

record job =
  hosts :: "string list"
  self :: nat
  host :: string
  status :: "transport_op \<Rightarrow> cint"
  error_text :: "cint \<Rightarrow> string"
  bootstrapped :: bool
  released :: bool
  passed :: "domain option list"

text \<open>
  Modelled from the spec: the members of a domain, by global rank (the transport's group
  abstraction, used by the missing body of \<^verbatim>\<open>init\<close>). The global domain spans every
  process of the job; a node-local domain spans the processes on the node of that
  identifier.
\<close>

fun members :: "job \<Rightarrow> domain \<Rightarrow> nat list" where
  "members j Global_domain = [0..<length (hosts j)]"
| "members j (Node_domain k) = map fst (filter (\<lambda>(r, h). h = k) (enumerate 0 (hosts j)))"

text \<open>
  Modelled from the spec: a rank is a process's zero-based index within a domain (the
  transport's rank query, used by the missing body of \<^verbatim>\<open>init\<close>). \<open>index_of x xs\<close> is the
  position of \<open>x\<close> in \<open>xs\<close>.
\<close>

fun index_of :: "'a \<Rightarrow> 'a list \<Rightarrow> nat" where
  "index_of x [] = 0"
| "index_of x (y # ys) = (if x = y then 0 else Suc (index_of x ys))"

text \<open>
  Modelled from the spec: the sub-domains a split creates, one per distinct node
  identifier, in the order in which the identifiers are encountered (the transport's
  splitting facility, used by the missing body of \<^verbatim>\<open>init\<close>).
\<close>

fun first_seen :: "'a list \<Rightarrow> 'a list" where
  "first_seen [] = []"
| "first_seen (x # xs) = x # filter (\<lambda>y. y \<noteq> x) (first_seen xs)"

text \<open>
  Modelled from the spec: the transport's bootstrap, called by the missing body of
  \<^verbatim>\<open>init\<close> with the process's argument list. Like the operations below it has the shape
  \<open>MPI_CHECK\<close> takes: status, results, runtime afterwards.
\<close>

definition bootstrap :: "cint \<Rightarrow> string list \<Rightarrow> job \<Rightarrow> cint \<times> unit \<times> job" where
  "bootstrap argc argv j = (status j Bootstrap, (), j\<lparr>bootstrapped := True\<rparr>)"

text \<open>
  Modelled from the spec: the transport's rank query, called by the missing body of
  \<^verbatim>\<open>init\<close>: this process's index within the domain.
\<close>

definition rank_query :: "domain \<Rightarrow> job \<Rightarrow> cint \<times> cint \<times> job" where
  "rank_query d j = (status j Rank_query, of_nat (index_of (self j) (members j d)), j)"

text \<open>
  Modelled from the spec: the transport's size query, called by the missing body of
  \<^verbatim>\<open>init\<close>: the number of processes of the domain.
\<close>

definition size_query :: "domain \<Rightarrow> job \<Rightarrow> cint \<times> cint \<times> job" where
  "size_query d j = (status j Size_query, of_nat (length (members j d)), j)"

text \<open>
  Modelled from the spec: the transport's split by key, called by the missing body of
  \<^verbatim>\<open>init\<close>. Each process joins the sub-domain of its own key; the split gives that
  sub-domain, the number of sub-domains created, and the index of this one among them.
\<close>

definition split_by_key :: "string \<Rightarrow> job \<Rightarrow> cint \<times> (domain \<times> cint \<times> cint) \<times> job" where
  "split_by_key k j =
     (status j Split_by_key,
      (Node_domain k,
       of_nat (length (first_seen (hosts j))),
       of_nat (index_of k (first_seen (hosts j)))),
      j)"

text \<open>
  Modelled from the spec: the transport's barrier on a domain handle, called by the
  missing bodies of \<^verbatim>\<open>barrier\<close> and \<^verbatim>\<open>locale_barrier\<close>. Of the rendezvous with the other
  processes, one process sees only that it came out of the barrier.
\<close>

definition barrier_on :: "domain option \<Rightarrow> job \<Rightarrow> cint \<times> unit \<times> job" where
  "barrier_on d j = (status j Barrier, (), j\<lparr>passed := passed j @ [d]\<rparr>)"

text \<open>
  Modelled from the spec: the transport's finalize, called by the missing body of
  \<^verbatim>\<open>finalize\<close>: it releases the runtime's resources.
\<close>

definition release :: "job \<Rightarrow> cint \<times> unit \<times> job" where
  "release j = (status j Release, (), j\<lparr>released := True\<rparr>)"

text \<open>
  Modelled from the spec: \<^verbatim>\<open>init\<close>, whose body is missing. In order: bootstrap the
  transport with the argument list; query global rank and size; split the global domain
  by the node identifier derived from the host name; query rank and size in the
  node-local domain; take node count and node id from the split. Every transport call
  goes through \<open>MPI_CHECK\<close>. All six integers and both domain handles are assigned.
\<close>

definition init ::
  "cint \<Rightarrow> string list \<Rightarrow> domain MPIConnection \<Rightarrow> job process
   \<Rightarrow> (domain MPIConnection, job) outcome" where
  "init argc_p argv_p this p =
     and_then (MPI_CHECK (error_text (mpi p)) ''bootstrap'' (bootstrap argc_p argv_p) p)
       (\<lambda>_ p1.
     and_then (MPI_CHECK (error_text (mpi p1)) ''rank query'' (rank_query Global_domain) p1)
       (\<lambda>global_rank p2.
     and_then (MPI_CHECK (error_text (mpi p2)) ''size query'' (size_query Global_domain) p2)
       (\<lambda>global_size p3.
     and_then (MPI_CHECK (error_text (mpi p3)) ''split by key''
                 (split_by_key (host (mpi p3))) p3)
       (\<lambda>(node_domain, node_count, node_id) p4.
     and_then (MPI_CHECK (error_text (mpi p4)) ''rank query'' (rank_query node_domain) p4)
       (\<lambda>node_local_rank p5.
     and_then (MPI_CHECK (error_text (mpi p5)) ''size query'' (size_query node_domain) p5)
       (\<lambda>node_local_size p6.
     Returned
       (this\<lparr>rank_m := global_rank, size_m := global_size,
              locales_m := node_count, locale_m := node_id,
              locale_rank_m := node_local_rank, locale_size_m := node_local_size,
              main_communicator_m := Some Global_domain,
              locale_communicator_m := Some node_domain\<rparr>)
       p6))))))"

text \<open>
  Modelled from the spec: \<^verbatim>\<open>finalize\<close>, whose body is missing: it releases the
  transport runtime's resources, with no idempotence guard of its own.
\<close>

definition finalize ::
  "domain MPIConnection \<Rightarrow> job process \<Rightarrow> (domain MPIConnection, job) outcome" where
  "finalize this p =
     and_then (MPI_CHECK (error_text (mpi p)) ''finalize'' release p) (\<lambda>_ q. Returned this q)"

text \<open>
  Modelled from the spec: \<^verbatim>\<open>barrier\<close>, whose body is missing: a barrier of the transport
  on the global domain handle. No return value; a transport error is fatal.
\<close>

definition barrier ::
  "domain MPIConnection \<Rightarrow> job process \<Rightarrow> (domain MPIConnection, job) outcome" where
  "barrier this p =
     and_then (MPI_CHECK (error_text (mpi p)) ''barrier'' (barrier_on (main_communicator_m this)) p)
       (\<lambda>_ q. Returned this q)"

text \<open>
  Modelled from the spec: \<^verbatim>\<open>locale_barrier\<close>, whose body is missing: the same on the
  node-local domain handle.
\<close>

definition locale_barrier ::
  "domain MPIConnection \<Rightarrow> job process \<Rightarrow> (domain MPIConnection, job) outcome" where
  "locale_barrier this p =
     and_then
       (MPI_CHECK (error_text (mpi p)) ''barrier'' (barrier_on (locale_communicator_m this)) p)
       (\<lambda>_ q. Returned this q)"

text \<open>
  Modelled from the spec: \<^verbatim>\<open>hostname\<close>, whose body is missing: a single host-name
  lookup in the operating system, with no cache of its own. The result is the name
  together with the handle.
\<close>

definition hostname ::
  "domain MPIConnection \<Rightarrow> job process \<Rightarrow> (string \<times> domain MPIConnection, job) outcome" where
  "hostname this p = Returned (host (mpi p), this) p"

text \<open>
  A client's use of an initialised handle: a sequence of calls of the public member
  functions and reads of the public views. \<open>six_integers\<close> are the private integers.
\<close>

datatype call =
  Call_barrier | Call_locale_barrier | Call_hostname | Call_finalize
| Read_view "domain MPIConnection \<Rightarrow> int_member"

fun perform ::
  "call \<Rightarrow> domain MPIConnection \<Rightarrow> job process \<Rightarrow> (domain MPIConnection, job) outcome" where
  "perform Call_barrier this p = barrier this p"
| "perform Call_locale_barrier this p = locale_barrier this p"
| "perform Call_hostname this p = and_then (hostname this p) (\<lambda>(name, this') q. Returned this' q)"
| "perform Call_finalize this p = finalize this p"
| "perform (Read_view view) this p =
     and_then (Returned (deref this (view this)) p) (\<lambda>v q. Returned this q)"

fun perform_all ::
  "call list \<Rightarrow> domain MPIConnection \<Rightarrow> job process \<Rightarrow> (domain MPIConnection, job) outcome" where
  "perform_all [] this p = Returned this p"
| "perform_all (c # cs) this p = and_then (perform c this p) (perform_all cs)"

definition six_integers ::
  "('c, 'z) MPIConnection_scheme \<Rightarrow> cint \<times> cint \<times> cint \<times> cint \<times> cint \<times> cint" where
  "six_integers this =
     (rank_m this, size_m this, locales_m this, locale_m this,
      locale_rank_m this, locale_size_m this)"

text \<open>
  The scenario of the specification: a job of four processes on one node, here named
  \<open>n0\<close>, in which every transport operation succeeds. \<open>one_node_process r\<close> is the process
  of global rank \<open>r\<close> before \<open>init\<close>, \<open>one_node_after r\<close> the same process after it, and
  \<open>one_node_handle r\<close> its handle after \<open>init\<close>.
\<close>

definition one_node_process :: "nat \<Rightarrow> job process" where
  "one_node_process r =
     \<lparr>cerr = [],
      mpi = \<lparr>hosts = [''n0'', ''n0'', ''n0'', ''n0''], self = r, host = ''n0'',
             status = (\<lambda>_. 0), error_text = (\<lambda>_. []),
             bootstrapped = False, released = False, passed = []\<rparr>\<rparr>"

definition one_node_after :: "nat \<Rightarrow> job process" where
  "one_node_after r =
     (one_node_process r)\<lparr>mpi := (mpi (one_node_process r))\<lparr>bootstrapped := True\<rparr>\<rparr>"

definition one_node_handle :: "nat \<Rightarrow> domain MPIConnection" where
  "one_node_handle r =
     MPIConnection_ctor
       \<lparr>rank_m := of_nat r, size_m := 4, locales_m := 1, locale_m := 0,
        locale_rank_m := of_nat r, locale_size_m := 4,
        main_communicator_m := Some Global_domain,
        locale_communicator_m := Some (Node_domain ''n0'')\<rparr>"

section \<open>The fail-fast wrapper\<close>

text \<open>
  C1. A call routed through \<open>MPI_CHECK\<close> that gives a non-zero status ends the process with
  exit status 1, after appending to the error stream one message made of the text of the
  failing call and the transport's translation of the status; the wrapper does not return
  to its caller. A call that gives status zero returns with exactly the state the call
  itself left: the error stream is untouched and execution continues.
\<close>

theorem MPI_CHECK_fail_fast:
  assumes "mpi_call (mpi p) = (retval, out, t)"
  shows "(retval \<noteq> 0 \<longrightarrow>
            MPI_CHECK MPI_Error_string mpi_call_text mpi_call p =
              Exited 1 (p\<lparr>mpi := t,
                          cerr := cerr p @ ''MPI call failed: '' @ mpi_call_text @ '': ''
                                    @ MPI_Error_string retval @ ''\<newline>''\<rparr>)
            \<and> (\<forall>v q. MPI_CHECK MPI_Error_string mpi_call_text mpi_call p \<noteq> Returned v q))
       \<and> (retval = 0 \<longrightarrow>
            MPI_CHECK MPI_Error_string mpi_call_text mpi_call p = Returned out (p\<lparr>mpi := t\<rparr>)
            \<and> cerr (p\<lparr>mpi := t\<rparr>) = cerr p)"
  using assms by (simp add: MPI_CHECK_def)

theorem MPI_CHECK_fail_fast_witness:
  "MPI_CHECK (\<lambda>e. ''MPI_ERR_COMM: invalid communicator'') ''MPI_Barrier( comm )''
       (\<lambda>t. (5, (), Suc t)) \<lparr>cerr = ''log: '', mpi = (0::nat)\<rparr>
     = Exited 1 \<lparr>cerr = ''log: MPI call failed: MPI_Barrier( comm ): MPI_ERR_COMM: invalid communicator\<newline>'',
                 mpi = Suc 0\<rparr>
   \<and> MPI_CHECK (\<lambda>e. ''MPI_ERR_COMM: invalid communicator'') ''MPI_Barrier( comm )''
       (\<lambda>t. (0, (), Suc t)) \<lparr>cerr = ''log: '', mpi = (0::nat)\<rparr>
     = Returned () \<lparr>cerr = ''log: '', mpi = Suc 0\<rparr>"
  using MPI_CHECK_fail_fast [of "\<lambda>t. (5, (), Suc t)" "\<lparr>cerr = ''log: '', mpi = (0::nat)\<rparr>"
          5 "()" "Suc 0" "\<lambda>e. ''MPI_ERR_COMM: invalid communicator''" "''MPI_Barrier( comm )''"]
        MPI_CHECK_fail_fast [of "\<lambda>t. (0, (), Suc t)" "\<lparr>cerr = ''log: '', mpi = (0::nat)\<rparr>"
          0 "()" "Suc 0" "\<lambda>e. ''MPI_ERR_COMM: invalid communicator''" "''MPI_Barrier( comm )''"]
  by simp

section \<open>Construction\<close>

text \<open>
  C3. After default construction all six integer members hold the sentinel \<open>- 1\<close>, and
  each of the eight public views reads \<open>- 1\<close> as a signed integer.
\<close>

theorem MPIConnection_ctor_sentinel:
  "rank_m (MPIConnection_ctor :: 'c MPIConnection) = - 1
   \<and> size_m (MPIConnection_ctor :: 'c MPIConnection) = - 1
   \<and> locales_m (MPIConnection_ctor :: 'c MPIConnection) = - 1
   \<and> locale_m (MPIConnection_ctor :: 'c MPIConnection) = - 1
   \<and> locale_rank_m (MPIConnection_ctor :: 'c MPIConnection) = - 1
   \<and> locale_size_m (MPIConnection_ctor :: 'c MPIConnection) = - 1
   \<and> map (\<lambda>view. sint (deref (MPIConnection_ctor :: 'c MPIConnection) (view MPIConnection_ctor)))
        [rank, size_ref, ranks, locales, locale_ref, locale_rank, locale_size, locale_ranks]
      = [- 1, - 1, - 1, - 1, - 1, - 1, - 1, - 1]"
  by (simp add: MPIConnection_ctor_def)

text \<open>
  C5. For every argument list (and every process state and every implementation of
  \<open>init\<close>), the constructor taking \<open>(argc_p, argv_p)\<close> gives the same outcome, hence the
  same object and the same process state, as default construction followed by
  \<open>init(argc_p, argv_p)\<close>.
\<close>

theorem MPIConnection_ctor_args_is_default_then_init:
  "MPIConnection_ctor_args init_impl argc_p argv_p p = default_then_init init_impl argc_p argv_p p"
  by (simp add: MPIConnection_ctor_args_def default_then_init_def
      MPIConnection_ctor_args_initialisers_def MPIConnection_ctor_def)

section \<open>The size aliases\<close>

text \<open>
  C4. Member functions can assign the six integers and the two communicators; a C++
  reference member cannot be bound again after construction. So every state of a handle
  is an object built by one of the two initialiser lists with arbitrary values assigned
  to those eight data members. In every such state \<open>ranks\<close> reads the same value as
  \<open>size\<close>, namely \<open>size_\<close>, and \<open>locale_ranks\<close> the same value as \<open>locale_size\<close>, namely
  \<open>locale_size_\<close>.
\<close>

theorem size_aliases_agree_in_every_state:
  fixes built :: "'c MPIConnection" and r s ls l lr lsz :: cint and mc lc :: "'c option"
  defines "this \<equiv> built\<lparr>rank_m := r, size_m := s, locales_m := ls, locale_m := l,
                      locale_rank_m := lr, locale_size_m := lsz,
                      main_communicator_m := mc, locale_communicator_m := lc\<rparr>"
  shows "(built = MPIConnection_ctor \<or> built = MPIConnection_ctor_args_initialisers) \<longrightarrow>
           deref this (ranks this) = deref this (size_ref this)
         \<and> deref this (size_ref this) = s
         \<and> deref this (locale_ranks this) = deref this (locale_size this)
         \<and> deref this (locale_size this) = lsz"
  by (auto simp add: this_def MPIConnection_ctor_def MPIConnection_ctor_args_initialisers_def)

theorem size_aliases_agree_in_every_state_witness:
  "(let this = (MPIConnection_ctor :: nat MPIConnection)
                 \<lparr>rank_m := 2, size_m := 4, locales_m := 1, locale_m := 0,
                   locale_rank_m := 2, locale_size_m := 4,
                   main_communicator_m := Some 0, locale_communicator_m := Some 1\<rparr>
    in deref this (ranks this) = 4 \<and> deref this (size_ref this) = 4
       \<and> deref this (locale_ranks this) = 4 \<and> deref this (locale_size this) = 4)"
  using size_aliases_agree_in_every_state
          [where built = "MPIConnection_ctor :: nat MPIConnection" and r = 2 and s = 4
             and ls = 1 and l = 0 and lr = 2 and lsz = 4 and mc = "Some 0" and lc = "Some 1"]
  by (simp add: Let_def)

section \<open>Destruction\<close>

lemma and_then_Returned:
  "and_then x k = Returned v q \<Longrightarrow> \<exists>u r. x = Returned u r \<and> k u r = Returned v q"
  by (cases x) simp_all

lemma and_then_not_Thrown:
  "\<not> is_Thrown x \<Longrightarrow> (\<And>v q. \<not> is_Thrown (k v q)) \<Longrightarrow> \<not> is_Thrown (and_then x k)"
  by (cases x) simp_all

lemma MPI_CHECK_not_Thrown:
  "\<not> is_Thrown (MPI_CHECK MPI_Error_string mpi_call_text mpi_call p)"
  by (simp add: MPI_CHECK_def split: prod.split)

lemma MPIConnection_dtor_throws_only_from_finalize:
  assumes "\<And>q. \<not> is_Thrown (finalize_impl this q)"
  shows "\<not> is_Thrown (MPIConnection_dtor MPI_Error_string MPI_Finalized finalize_impl this p)"
  unfolding MPIConnection_dtor_def
  by (intro and_then_not_Thrown MPI_CHECK_not_Thrown) (simp add: assms and_then_not_Thrown)

lemma finalize_not_Thrown: "\<not> is_Thrown (finalize this p)"
  unfolding finalize_def
  by (intro and_then_not_Thrown MPI_CHECK_not_Thrown) simp

lemma warning_is_one_line:
  "length (filter (\<lambda>c. c = CHR 0x0A) (
                  ''Warning: you should probably call finalize() before MPIConnection goes out of scope, or you may occassionally see deadlock.''
                  @ ''\<newline>'')) = 1"
  by simp

text \<open>
  C2. Let the finalized-query succeed. If it reports that the transport is not finalized
  (flag zero), the destructor appends the warning of line 105, spelled out below, and one
  line end to the error stream, exactly one line, and then calls \<open>finalize()\<close> on that
  state; what \<open>finalize\<close> does is the rest of the destructor. If it reports that the transport is finalized, the
  destructor returns with the error stream untouched, whatever \<open>finalize\<close> would do: it
  is not called. The destructor has no throw of its own: an exception can only come out
  of it from \<open>finalize\<close>, and with \<open>finalize\<close> as the specification describes it, none does.
\<close>

theorem MPIConnection_dtor_warns_then_finalizes:
  assumes "MPI_Finalized (mpi p) 0 = (0, finalized, t)"
  shows "(finalized = 0 \<longrightarrow>
            MPIConnection_dtor MPI_Error_string MPI_Finalized finalize_impl this p =
              and_then
                (finalize_impl this
                   (p\<lparr>mpi := t, cerr := cerr p @
                  ''Warning: you should probably call finalize() before MPIConnection goes out of scope, or you may occassionally see deadlock.''
                  @ ''\<newline>''\<rparr>))
                (\<lambda>_ r. Returned () r)
            \<and> length (filter (\<lambda>c. c = CHR 0x0A) (
                  ''Warning: you should probably call finalize() before MPIConnection goes out of scope, or you may occassionally see deadlock.''
                  @ ''\<newline>'')) = 1)
       \<and> (finalized \<noteq> 0 \<longrightarrow>
            (\<forall>fin. MPIConnection_dtor MPI_Error_string MPI_Finalized fin this p =
                     Returned () (p\<lparr>mpi := t\<rparr>))
            \<and> cerr (p\<lparr>mpi := t\<rparr>) = cerr p)
       \<and> ((\<forall>q. \<not> is_Thrown (finalize_impl this q)) \<longrightarrow>
            \<not> is_Thrown (MPIConnection_dtor MPI_Error_string MPI_Finalized finalize_impl this p))
       \<and> \<not> is_Thrown (MPIConnection_dtor error_string finalized_query finalize handle q)"
proof -
  have paths:
    "(finalized = 0 \<longrightarrow>
        MPIConnection_dtor MPI_Error_string MPI_Finalized finalize_impl this p =
          and_then
            (finalize_impl this
               (p\<lparr>mpi := t, cerr := cerr p @
                  ''Warning: you should probably call finalize() before MPIConnection goes out of scope, or you may occassionally see deadlock.''
                  @ ''\<newline>''\<rparr>))
            (\<lambda>_ r. Returned () r))
     \<and> (finalized \<noteq> 0 \<longrightarrow>
          (\<forall>fin. MPIConnection_dtor MPI_Error_string MPI_Finalized fin this p =
                   Returned () (p\<lparr>mpi := t\<rparr>)))"
    using assms by (simp add: MPIConnection_dtor_def MPI_CHECK_def finalize_warning_def)
  have no_throw:
    "(\<forall>q. \<not> is_Thrown (finalize_impl this q)) \<longrightarrow>
       \<not> is_Thrown (MPIConnection_dtor MPI_Error_string MPI_Finalized finalize_impl this p)"
    by (simp add: MPIConnection_dtor_throws_only_from_finalize)
  have modelled:
    "\<not> is_Thrown (MPIConnection_dtor error_string finalized_query finalize handle q)"
    by (rule MPIConnection_dtor_throws_only_from_finalize) (rule finalize_not_Thrown)
  from paths no_throw modelled warning_is_one_line show ?thesis
    by simp
qed

theorem MPIConnection_dtor_warns_then_finalizes_witness:
  "MPIConnection_dtor (\<lambda>_. ''MPI_ERR_OTHER'') (\<lambda>t f. (0, if t then 1 else 0, t))
       (\<lambda>this q. Returned this (q\<lparr>mpi := True\<rparr>))
       (MPIConnection_ctor :: nat MPIConnection) \<lparr>cerr = [], mpi = False\<rparr>
     = Returned () \<lparr>cerr =
                  ''Warning: you should probably call finalize() before MPIConnection goes out of scope, or you may occassionally see deadlock.''
                  @ ''\<newline>'', mpi = True\<rparr>
   \<and> MPIConnection_dtor (\<lambda>_. ''MPI_ERR_OTHER'') (\<lambda>t f. (0, if t then 1 else 0, t))
       (\<lambda>this q. Returned this (q\<lparr>mpi := True\<rparr>))
       (MPIConnection_ctor :: nat MPIConnection) \<lparr>cerr = [], mpi = True\<rparr>
     = Returned () \<lparr>cerr = [], mpi = True\<rparr>"
  using MPIConnection_dtor_warns_then_finalizes
          [where MPI_Finalized = "\<lambda>t f. (0, if t then 1 else 0, t)"
             and p = "\<lparr>cerr = [], mpi = False\<rparr>" and finalized = 0 and t = False
             and MPI_Error_string = "\<lambda>_. ''MPI_ERR_OTHER''"
             and finalize_impl = "\<lambda>this q. Returned this (q\<lparr>mpi := True\<rparr>)"
             and this = "MPIConnection_ctor :: nat MPIConnection"]
        MPIConnection_dtor_warns_then_finalizes
          [where MPI_Finalized = "\<lambda>t f. (0, if t then 1 else 0, t)"
             and p = "\<lparr>cerr = [], mpi = True\<rparr>" and finalized = 1 and t = True
             and MPI_Error_string = "\<lambda>_. ''MPI_ERR_OTHER''"
             and finalize_impl = "\<lambda>this q. Returned this (q\<lparr>mpi := True\<rparr>)"
             and this = "MPIConnection_ctor :: nat MPIConnection"]
  by simp

text \<open>
  C10. The destructor uses its handle for one thing only, as the receiver of \<open>finalize()\<close>:
  destroying any handle, initialised or not, is destroying a default-constructed one with
  that \<open>finalize\<close> call in place. So whether the warning is printed and \<open>finalize\<close> attempted
  depends on the finalized-query alone, and a handle on which \<open>init\<close> was never called,
  destroyed while the transport is not finalized, still prints the warning, spelled out
  below, and then calls \<open>finalize()\<close>.
\<close>

theorem MPIConnection_dtor_never_initialised:
  "MPIConnection_dtor MPI_Error_string MPI_Finalized finalize_impl this p =
     MPIConnection_dtor MPI_Error_string MPI_Finalized (\<lambda>_. finalize_impl this)
       MPIConnection_ctor p
   \<and> (MPI_Finalized (mpi p) 0 = (0, 0, t) \<longrightarrow>
        MPIConnection_dtor MPI_Error_string MPI_Finalized finalize_impl MPIConnection_ctor p =
          and_then
            (finalize_impl MPIConnection_ctor
               (p\<lparr>mpi := t, cerr := cerr p @
                  ''Warning: you should probably call finalize() before MPIConnection goes out of scope, or you may occassionally see deadlock.''
                  @ ''\<newline>''\<rparr>))
            (\<lambda>_ r. Returned () r))"
  by (simp add: MPIConnection_dtor_def MPI_CHECK_def finalize_warning_def)

theorem MPIConnection_dtor_never_initialised_witness:
  "MPIConnection_dtor (\<lambda>_. ''MPI_ERR_OTHER'') (\<lambda>t f. (0, 0, t))
       (\<lambda>this q. Returned this (q\<lparr>mpi := Suc (mpi q)\<rparr>))
       (MPIConnection_ctor :: nat MPIConnection) \<lparr>cerr = ''> '', mpi = 0\<rparr>
     = Returned () \<lparr>cerr = ''> '' @
                  ''Warning: you should probably call finalize() before MPIConnection goes out of scope, or you may occassionally see deadlock.''
                  @ ''\<newline>'', mpi = Suc 0\<rparr>"
  using MPIConnection_dtor_never_initialised
          [where MPI_Finalized = "\<lambda>t f. (0, 0, t)"
             and p = "\<lparr>cerr = ''> '', mpi = 0\<rparr>" and t = "0 :: nat"
             and MPI_Error_string = "\<lambda>_. ''MPI_ERR_OTHER''"
             and finalize_impl = "\<lambda>this q. Returned this (q\<lparr>mpi := Suc (mpi q)\<rparr>)"
             and this = "MPIConnection_ctor :: nat MPIConnection", THEN conjunct2]
  by simp

section \<open>After init\<close>

lemma perform_keeps_handle:
  "perform c this p = Returned this' p' \<Longrightarrow> this' = this"
  by (cases c)
     (auto simp add: barrier_def locale_barrier_def finalize_def hostname_def
           dest!: and_then_Returned)

lemma perform_all_keeps_handle:
  "perform_all cs this p = Returned this' p' \<Longrightarrow> this' = this"
proof (induction cs arbitrary: this p)
  case Nil
  then show ?case by simp
next
  case (Cons c cs)
  from Cons.prems obtain u r where
    step: "perform c this p = Returned u r" and rest: "perform_all cs u r = Returned this' p'"
    by (auto dest!: and_then_Returned)
  from step have "u = this" by (rule perform_keeps_handle)
  with Cons.IH [OF rest] show ?case by simp
qed

lemma init_Returned:
  assumes "init argc argv this p = Returned this' p'"
  shows "this' =
     this\<lparr>rank_m := of_nat (index_of (self (mpi p)) (members (mpi p) Global_domain)),
          size_m := of_nat (length (members (mpi p) Global_domain)),
          locales_m := of_nat (length (first_seen (hosts (mpi p)))),
          locale_m := of_nat (index_of (host (mpi p)) (first_seen (hosts (mpi p)))),
          locale_rank_m :=
            of_nat (index_of (self (mpi p)) (members (mpi p) (Node_domain (host (mpi p))))),
          locale_size_m := of_nat (length (members (mpi p) (Node_domain (host (mpi p))))),
          main_communicator_m := Some Global_domain,
          locale_communicator_m := Some (Node_domain (host (mpi p)))\<rparr>"
  using assms
  by (auto simp add: init_def MPI_CHECK_def bootstrap_def rank_query_def size_query_def
        split_by_key_def split: if_splits)

lemma below_four: "(\<forall>r<4. P r) \<longleftrightarrow> P 0 \<and> P 1 \<and> P 2 \<and> P (3::nat)"
  by (auto simp add: numeral_eq_Suc less_Suc_eq)

lemma below_four_cases: "r < 4 \<Longrightarrow> r = 0 \<or> r = 1 \<or> r = 2 \<or> r = (3::nat)"
  by arith

lemma upt_four: "[0..<4] = [0, 1, 2, 3]"
  by (simp add: upt_rec)

lemma init_one_node:
  "r < 4 \<Longrightarrow>
   init 1 [''a.out''] MPIConnection_ctor (one_node_process r) =
     Returned (one_node_handle r) (one_node_after r)"
  by (drule below_four_cases)
     (auto simp add: init_def MPI_CHECK_def bootstrap_def rank_query_def size_query_def
        split_by_key_def one_node_process_def one_node_after_def one_node_handle_def upt_four)

text \<open>
  C6. Once \<open>init\<close> has returned, any sequence of calls of \<open>barrier()\<close>, \<open>locale_barrier()\<close>,
  \<open>hostname()\<close>, \<open>finalize()\<close> and reads of the public views that runs to its end leaves
  the six integers as \<open>init\<close> set them. A view is read through \<open>deref\<close>, which gives a
  value and has no way to assign a member.
\<close>

theorem six_integers_frozen_after_init:
  assumes "init argc argv this0 p0 = Returned this p"
      and "perform_all calls this p = Returned this' p'"
  shows "six_integers this' = six_integers this"
  using perform_all_keeps_handle [OF assms(2)] by simp

theorem six_integers_frozen_after_init_witness:
  "init 1 [''a.out''] MPIConnection_ctor (one_node_process 2)
     = Returned (one_node_handle 2) (one_node_after 2)
   \<and> perform_all
       [Call_barrier, Call_hostname, Read_view ranks, Call_locale_barrier, Call_finalize]
       (one_node_handle 2) (one_node_after 2)
     = Returned (one_node_handle 2)
         ((one_node_after 2)\<lparr>mpi := (mpi (one_node_after 2))
            \<lparr>released := True,
              passed := [Some Global_domain, Some (Node_domain ''n0'')]\<rparr>\<rparr>)
   \<and> six_integers (one_node_handle 2) = (2, 4, 1, 0, 2, 4)"
proof -
  have ran: "init 1 [''a.out''] MPIConnection_ctor (one_node_process 2)
               = Returned (one_node_handle 2) (one_node_after 2)"
    by (simp add: init_one_node)
  have used:
    "perform_all
       [Call_barrier, Call_hostname, Read_view ranks, Call_locale_barrier, Call_finalize]
       (one_node_handle 2) (one_node_after 2)
     = Returned (one_node_handle 2)
         ((one_node_after 2)\<lparr>mpi := (mpi (one_node_after 2))
            \<lparr>released := True,
              passed := [Some Global_domain, Some (Node_domain ''n0'')]\<rparr>\<rparr>)"
    by (simp add: barrier_def locale_barrier_def hostname_def finalize_def MPI_CHECK_def
        barrier_on_def release_def one_node_after_def one_node_process_def one_node_handle_def)
  from six_integers_frozen_after_init [OF ran used] ran used
  show ?thesis
    by (simp add: six_integers_def one_node_handle_def)
qed

text \<open>
  C7. In a job of four processes that are all on one node, once each of them has come
  back from \<open>init\<close>, every process has node count 1, node id 0, node-local size 4 and
  global size 4, and the node-local ranks of the four processes are pairwise different
  and are exactly 0, 1, 2, 3.
\<close>

theorem init_one_node_four_processes:
  assumes job: "\<forall>r<4. hosts (mpi (p r)) = [h, h, h, h] \<and> self (mpi (p r)) = r
                       \<and> host (mpi (p r)) = h"
      and ran: "\<forall>r<4. init argc argv (this r) (p r) = Returned (this' r) (p' r)"
  shows "(\<forall>r<4. locales_m (this' r) = 1 \<and> locale_m (this' r) = 0
                \<and> locale_size_m (this' r) = 4 \<and> size_m (this' r) = 4)
       \<and> distinct (map (\<lambda>r. locale_rank_m (this' r)) [0..<4])
       \<and> set (map (\<lambda>r. locale_rank_m (this' r)) [0..<4]) = {0, 1, 2, 3}"
proof -
  have after: "locales_m (this' r) = 1 \<and> locale_m (this' r) = 0
      \<and> locale_size_m (this' r) = 4 \<and> size_m (this' r) = 4
      \<and> locale_rank_m (this' r) = of_nat r" if "r < 4" for r
  proof -
    from job that have j: "hosts (mpi (p r)) = [h, h, h, h]" "self (mpi (p r)) = r"
        "host (mpi (p r)) = h"
      by simp_all
    from ran that have "init argc argv (this r) (p r) = Returned (this' r) (p' r)" by simp
    from init_Returned [OF this] below_four_cases [OF that] show ?thesis
      by (auto simp add: j upt_four)
  qed
  have ranks: "map (\<lambda>r. locale_rank_m (this' r)) [0..<4] = [0, 1, 2, 3]"
    using after [of 0] after [of 1] after [of 2] after [of 3] by (simp add: upt_four)
  show ?thesis
    using after unfolding ranks by auto
qed

theorem init_one_node_four_processes_witness:
  "map (\<lambda>r. init 1 [''a.out''] MPIConnection_ctor (one_node_process r)) [0, 1, 2, 3]
     = map (\<lambda>r. Returned (one_node_handle r) (one_node_after r)) [0, 1, 2, 3]
   \<and> map (\<lambda>r. six_integers (one_node_handle r)) [0, 1, 2, 3]
     = [(0, 4, 1, 0, 0, 4), (1, 4, 1, 0, 1, 4), (2, 4, 1, 0, 2, 4), (3, 4, 1, 0, 3, 4)]"
proof -
  have job: "\<forall>r<4. hosts (mpi (one_node_process r)) = [''n0'', ''n0'', ''n0'', ''n0'']
               \<and> self (mpi (one_node_process r)) = r \<and> host (mpi (one_node_process r)) = ''n0''"
    by (simp add: one_node_process_def)
  have ran: "\<forall>r<4. init 1 [''a.out''] MPIConnection_ctor (one_node_process r)
               = Returned (one_node_handle r) (one_node_after r)"
    by (simp add: init_one_node)
  from init_one_node_four_processes [OF job ran] ran
  show ?thesis
    by (simp add: below_four six_integers_def one_node_handle_def)
qed

section \<open>The host name\<close>

text \<open>
  C9. In any state of a process, so also after \<open>init\<close>, \<open>hostname()\<close> returns, and a client
  that calls it twice in a row and compares the two strings finds them equal; the process
  is as it was before.
\<close>

theorem hostname_twice_same_string:
  "and_then (hostname this p)
     (\<lambda>(first, this1) p1.
        and_then (hostname this1 p1)
          (\<lambda>(second, this2) p2. Returned (first = second) p2))
   = Returned True p"
  by (simp add: hostname_def)

end
